theory Spec2Isabelle
  imports Complex_Main
begin

section \<open>The data of \<open>ts_plotting.py\<close>\<close>

text \<open>
  \<open>plot_time_series\<close> reads three pandas data frames, a display mode, an axis label and
  a colour dictionary, builds a plotly figure and shows it.

  A data frame is its index and the list of its columns. The source reads
  \<open>df.index\<close> and \<open>df.iloc[:, 0]\<close>; the second raises \<open>IndexError\<close> on a frame without
  columns.
\<close>

record ('t, 'v) data_frame =
  index :: "'t list"
  columns :: "'v list list"

text \<open>
  A colour is the string handed to plotly. The values of a colour dictionary stand for
  colour specifications that plotly accepts: plotly's own validation of property values
  is not part of this file and \<open>go.Scatter\<close> is taken to store what it is given.
\<close>

type_synonym color = string

type_synonym colors = "string \<rightharpoonup> color"

datatype error =
  ValueError string
| KeyError string
| IndexError string
| TypeError string
| UnboundLocalError string

text \<open>The dictionaries passed as \<open>marker=\<close> and \<open>line=\<close> of a scatter trace.\<close>

record marker_dict =
  marker_color :: color
  marker_size :: int

record line_dict =
  line_color :: color
  dash :: "string option"

text \<open>
  \<open>go.Scatter(x=, y=, mode=, name=, marker=, line=)\<close>. An argument that is \<open>None\<close> or
  not given is \<open>None\<close> here.
\<close>

record ('t, 'v) scatter =
  scatter_x :: "'t list"
  scatter_y :: "'v list"
  mode :: string
  name :: string
  marker :: "marker_dict option"
  line :: "line_dict option"

text \<open>The dictionaries passed as \<open>xaxis=\<close>, \<open>yaxis=\<close> and \<open>legend=\<close> of the layout.\<close>

record axis_dict =
  showspikes :: bool
  spikemode :: "string option"
  spikesnap :: "string option"
  spikedash :: "string option"
  spikethickness :: "rat option"
  spikecolor :: "string option"

record legend_dict =
  orientation :: string
  yanchor :: string
  legend_y :: rat
  xanchor :: string
  legend_x :: rat

record layout_dict =
  title :: string
  xaxis :: axis_dict
  yaxis :: axis_dict
  hovermode :: string
  template :: string
  xaxis_title :: string
  yaxis_title :: string
  legend :: legend_dict

text \<open>A figure: its traces in the order they were added, and its layout once updated.\<close>

record ('t, 'v) figure =
  data :: "('t, 'v) scatter list"
  layout :: "layout_dict option"

text \<open>
  The state a call works on: the local variable \<open>color_dict\<close> (the argument, rebound by
  the defaulting), the local variable \<open>fig\<close> (unbound, \<open>None\<close>, until \<open>go.Figure()\<close>
  is assigned), and the figures shown on the display so far, oldest first.
\<close>

record ('t, 'v) state =
  color_dict :: "colors option"
  fig :: "('t, 'v) figure option"
  shown :: "('t, 'v) figure list"

text \<open>
  A statement either completes in a new state or raises in the state it had reached.
\<close>

datatype ('t, 'v) outcome =
  Normal "('t, 'v) state"
| Raised error "('t, 'v) state"

fun state_of :: "('t, 'v) outcome \<Rightarrow> ('t, 'v) state" where
  "state_of (Normal s) = s"
| "state_of (Raised e s) = s"

text \<open>Statements in sequence: the first one that raises ends the run.\<close>

fun run :: "(('t, 'v) state \<Rightarrow> ('t, 'v) outcome) list \<Rightarrow> ('t, 'v) state \<Rightarrow> ('t, 'v) outcome" where
  "run [] s = Normal s"
| "run (f # fs) s = (case f s of Normal s' \<Rightarrow> run fs s' | Raised e s' \<Rightarrow> Raised e s')"

section \<open>Expressions that can raise\<close>

text \<open>\<open>df.iloc[:, 0]\<close>\<close>

definition iloc_col0 :: "('t, 'v) data_frame \<Rightarrow> error + 'v list" where
  "iloc_col0 df =
     (case columns df of
        [] \<Rightarrow> Inl (IndexError ''single positional indexer is out-of-bounds'')
      | c # _ \<Rightarrow> Inr c)"

text \<open>\<open>color_dict[key]\<close>\<close>

definition getitem :: "colors option \<Rightarrow> string \<Rightarrow> error + color" where
  "getitem cd key =
     (case cd of
        None \<Rightarrow> Inl (TypeError ''NoneType object is not subscriptable'')
      | Some m \<Rightarrow> (case m key of None \<Rightarrow> Inl (KeyError key) | Some c \<Rightarrow> Inr c))"

text \<open>\<open>fig.add_trace(tr)\<close>\<close>

definition add_trace :: "('t, 'v) scatter \<Rightarrow> ('t, 'v) state \<Rightarrow> ('t, 'v) outcome" where
  "add_trace tr s =
     (case fig s of
        None \<Rightarrow> Raised (UnboundLocalError ''fig'') s
      | Some f \<Rightarrow> Normal (s\<lparr>fig := Some (f\<lparr>data := data f @ [tr]\<rparr>)\<rparr>))"

section \<open>The statements of \<open>plot_time_series\<close>\<close>

text \<open>Lines 48 to 51: the validation of \<open>test_data_mode\<close>.\<close>

definition check_mode :: "string \<Rightarrow> ('t, 'v) state \<Rightarrow> ('t, 'v) outcome" where
  "check_mode test_data_mode s =
     (if test_data_mode \<notin> set [''markers'', ''lines'']
      then Raised (ValueError ''Invalid value for test_data_mode. Choose 'markers' or 'lines'.'') s
      else Normal s)"

text \<open>Lines 53 to 58: the default colours.\<close>

definition default_colors :: colors where
  "default_colors =
     [''training'' \<mapsto> ''#0072B2'', ''test'' \<mapsto> ''#000000'', ''forecast'' \<mapsto> ''#FF0000'']"

definition resolve_colors :: "('t, 'v) state \<Rightarrow> ('t, 'v) outcome" where
  "resolve_colors s =
     (if color_dict s = None
      then Normal (s\<lparr>color_dict := Some default_colors\<rparr>)
      else Normal s)"

text \<open>Line 61: \<open>fig = go.Figure()\<close>\<close>

definition new_figure :: "('t, 'v) state \<Rightarrow> ('t, 'v) outcome" where
  "new_figure s = Normal (s\<lparr>fig := Some \<lparr>data = [], layout = None\<rparr>\<rparr>)"

text \<open>
  Lines 64 to 72: the training trace. The arguments of \<open>go.Scatter\<close> are evaluated in
  the order written: \<open>iloc\<close> before the colour lookup.
\<close>

definition add_training :: "('t, 'v) data_frame \<Rightarrow> ('t, 'v) state \<Rightarrow> ('t, 'v) outcome" where
  "add_training training_data s =
     (case iloc_col0 training_data of
        Inl e \<Rightarrow> Raised e s
      | Inr ys \<Rightarrow>
          (case getitem (color_dict s) ''training'' of
             Inl e \<Rightarrow> Raised e s
           | Inr c \<Rightarrow>
               add_trace
                 \<lparr>scatter_x = index training_data, scatter_y = ys,
                  mode = ''lines'', name = ''Training Data'',
                  marker = None,
                  line = Some \<lparr>line_color = c, dash = None\<rparr>\<rparr> s))"

text \<open>
  Lines 75 to 93: the test trace, when test data is given. \<open>color_dict["test"]\<close> is
  looked up inside each conditional expression, so only on the branch taken.
\<close>

definition add_test ::
  "('t, 'v) data_frame option \<Rightarrow> string \<Rightarrow> ('t, 'v) state \<Rightarrow> ('t, 'v) outcome" where
  "add_test test_data test_data_mode s =
     (case test_data of
        None \<Rightarrow> Normal s
      | Some td \<Rightarrow>
          (case iloc_col0 td of
             Inl e \<Rightarrow> Raised e s
           | Inr ys \<Rightarrow>
               (case (if test_data_mode = ''markers''
                      then (case getitem (color_dict s) ''test'' of
                              Inl e \<Rightarrow> Inl e
                            | Inr c \<Rightarrow> Inr (Some \<lparr>marker_color = c, marker_size = 6\<rparr>))
                      else Inr None) of
                  Inl e \<Rightarrow> Raised e s
                | Inr mk \<Rightarrow>
                    (case (if test_data_mode = ''lines''
                           then (case getitem (color_dict s) ''test'' of
                                   Inl e \<Rightarrow> Inl e
                                 | Inr c \<Rightarrow> Inr (Some \<lparr>line_color = c, dash = None\<rparr>))
                           else Inr None) of
                       Inl e \<Rightarrow> Raised e s
                     | Inr li \<Rightarrow>
                         add_trace
                           \<lparr>scatter_x = index td, scatter_y = ys,
                            mode = test_data_mode, name = ''Test Data'',
                            marker = mk, line = li\<rparr> s))))"

text \<open>Lines 96 to 107: the forecast trace, when a forecast is given.\<close>

definition add_forecast :: "('t, 'v) data_frame option \<Rightarrow> ('t, 'v) state \<Rightarrow> ('t, 'v) outcome" where
  "add_forecast forecast s =
     (case forecast of
        None \<Rightarrow> Normal s
      | Some fc \<Rightarrow>
          (case iloc_col0 fc of
             Inl e \<Rightarrow> Raised e s
           | Inr ys \<Rightarrow>
               (case getitem (color_dict s) ''forecast'' of
                  Inl e \<Rightarrow> Raised e s
                | Inr c \<Rightarrow>
                    add_trace
                      \<lparr>scatter_x = index fc, scatter_y = ys,
                       mode = ''lines'', name = ''Point Forecast'',
                       marker = None,
                       line = Some \<lparr>line_color = c, dash = Some ''dash''\<rparr>\<rparr> s)))"

text \<open>Lines 110 to 126: the layout.\<close>

definition update_layout :: "string \<Rightarrow> ('t, 'v) state \<Rightarrow> ('t, 'v) outcome" where
  "update_layout y_axis_label s =
     (case fig s of
        None \<Rightarrow> Raised (UnboundLocalError ''fig'') s
      | Some f \<Rightarrow>
          Normal (s\<lparr>fig := Some (f\<lparr>layout := Some
            \<lparr>title = ''Univariate Time Series Visualization'',
             xaxis = \<lparr>showspikes = True, spikemode = Some ''across'',
                      spikesnap = Some ''cursor'', spikedash = Some ''dot'',
                      spikethickness = Some (3 / 2), spikecolor = Some ''gray''\<rparr>,
             yaxis = \<lparr>showspikes = False, spikemode = None, spikesnap = None,
                      spikedash = None, spikethickness = None, spikecolor = None\<rparr>,
             hovermode = ''x'',
             template = ''plotly_white'',
             xaxis_title = ''Date'',
             yaxis_title = y_axis_label,
             legend = \<lparr>orientation = ''h'', yanchor = ''bottom'', legend_y = 51 / 50,
                       xanchor = ''right'', legend_x = 1\<rparr>\<rparr>\<rparr>)\<rparr>))"

text \<open>Line 129: \<open>fig.show()\<close>, the one effect outside the call.\<close>

definition show_fig :: "('t, 'v) state \<Rightarrow> ('t, 'v) outcome" where
  "show_fig s =
     (case fig s of
        None \<Rightarrow> Raised (UnboundLocalError ''fig'') s
      | Some f \<Rightarrow> Normal (s\<lparr>shown := shown s @ [f]\<rparr>))"

section \<open>\<open>plot_time_series\<close>\<close>

text \<open>
  The call binds the colour argument to the local \<open>color_dict\<close>, starts with \<open>fig\<close>
  unbound and with the display as the caller left it, and runs the statements in order.
\<close>

definition enter :: "colors option \<Rightarrow> ('t, 'v) figure list \<Rightarrow> ('t, 'v) state" where
  "enter cd display = \<lparr>color_dict = cd, fig = None, shown = display\<rparr>"

definition plot_time_series ::
  "('t, 'v) data_frame \<Rightarrow> ('t, 'v) data_frame option \<Rightarrow> ('t, 'v) data_frame option \<Rightarrow>
   string \<Rightarrow> string \<Rightarrow> colors option \<Rightarrow> ('t, 'v) figure list \<Rightarrow> ('t, 'v) outcome" where
  "plot_time_series training_data test_data forecast test_data_mode y_axis_label cd display =
     run [check_mode test_data_mode,
          resolve_colors,
          new_figure,
          add_training training_data,
          add_test test_data test_data_mode,
          add_forecast forecast,
          update_layout y_axis_label,
          show_fig]
       (enter cd display)"

section \<open>Observing a trace\<close>

text \<open>
  The colours a trace carries: the colour of its marker dictionary and the colour of its
  line dictionary, for those that are given.
\<close>

definition trace_colors :: "('t, 'v) scatter \<Rightarrow> color set" where
  "trace_colors t =
     (case marker t of None \<Rightarrow> {} | Some mk \<Rightarrow> {marker_color mk}) \<union>
     (case line t of None \<Rightarrow> {} | Some li \<Rightarrow> {line_color li})"

section \<open>Facts about the statements\<close>

lemmas plot_defs = plot_time_series_def check_mode_def resolve_colors_def new_figure_def
  add_training_def add_test_def add_forecast_def update_layout_def show_fig_def enter_def
  add_trace_def iloc_col0_def getitem_def

lemma run_step_Normal: "f s = Normal s' \<Longrightarrow> run (f # fs) s = run fs s'"
  by simp

lemma run_step_Raised: "f s = Raised e s' \<Longrightarrow> run (f # fs) s = Raised e s'"
  by simp

lemma check_mode_valid:
  "test_data_mode = ''markers'' \<or> test_data_mode = ''lines'' \<Longrightarrow>
   check_mode test_data_mode s = Normal s"
  by (auto simp: check_mode_def)

lemma check_mode_invalid:
  "test_data_mode \<noteq> ''markers'' \<Longrightarrow> test_data_mode \<noteq> ''lines'' \<Longrightarrow>
   check_mode test_data_mode s
   = Raised (ValueError ''Invalid value for test_data_mode. Choose 'markers' or 'lines'.'') s"
  by (simp add: check_mode_def)

lemma resolve_colors_given: "color_dict s = Some cm \<Longrightarrow> resolve_colors s = Normal s"
  by (simp add: resolve_colors_def)

lemma resolve_colors_omitted:
  "color_dict s = None \<Longrightarrow> resolve_colors s = Normal (s\<lparr>color_dict := Some default_colors\<rparr>)"
  by (simp add: resolve_colors_def)

text \<open>No statement after the defaulting assigns \<open>color_dict\<close>, whether it raises or not.\<close>

lemma add_trace_keeps_colors: "color_dict (state_of (add_trace t s)) = color_dict s"
  by (simp add: add_trace_def split: option.splits)

lemma new_figure_keeps_colors: "color_dict (state_of (new_figure s)) = color_dict s"
  by (simp add: new_figure_def)

lemma add_training_keeps_colors:
  "color_dict (state_of (add_training training_data s)) = color_dict s"
  by (simp add: add_training_def add_trace_keeps_colors split: sum.splits)

lemma add_test_keeps_colors:
  "color_dict (state_of (add_test test_data test_data_mode s)) = color_dict s"
  by (simp add: add_test_def add_trace_keeps_colors split: option.splits sum.splits)

lemma add_forecast_keeps_colors:
  "color_dict (state_of (add_forecast forecast s)) = color_dict s"
  by (simp add: add_forecast_def add_trace_keeps_colors split: option.splits sum.splits)

lemma update_layout_keeps_colors:
  "color_dict (state_of (update_layout y_axis_label s)) = color_dict s"
  by (simp add: update_layout_def split: option.splits)

lemma show_fig_keeps_colors: "color_dict (state_of (show_fig s)) = color_dict s"
  by (simp add: show_fig_def split: option.splits)

lemma run_keeps_colors:
  assumes "\<And>f s. f \<in> set fs \<Longrightarrow> color_dict (state_of (f s)) = color_dict s"
  shows "color_dict (state_of (run fs s)) = color_dict s"
  using assms
proof (induction fs arbitrary: s)
  case Nil
  show ?case by simp
next
  case (Cons f fs)
  have here: "color_dict (state_of (f s)) = color_dict s"
    using Cons.prems by simp
  have rest: "\<And>s'. color_dict (state_of (run fs s')) = color_dict s'"
    using Cons.IH Cons.prems by simp
  show ?case
  proof (cases "f s")
    case (Normal s')
    with here rest [of s'] show ?thesis by simp
  next
    case (Raised e s')
    with here show ?thesis by simp
  qed
qed

lemma building_keeps_colors:
  "color_dict (state_of (run [new_figure, add_training training_data,
       add_test test_data test_data_mode, add_forecast forecast,
       update_layout y_axis_label, show_fig] s)) = color_dict s"
proof (rule run_keeps_colors)
  fix f :: "('a, 'b) state \<Rightarrow> ('a, 'b) outcome" and s' :: "('a, 'b) state"
  assume "f \<in> set [new_figure, add_training training_data,
       add_test test_data test_data_mode, add_forecast forecast,
       update_layout y_axis_label, show_fig]"
  then consider "f = new_figure" | "f = add_training training_data"
    | "f = add_test test_data test_data_mode" | "f = add_forecast forecast"
    | "f = update_layout y_axis_label" | "f = show_fig"
    by auto
  then show "color_dict (state_of (f s')) = color_dict s'"
    by cases
      (simp_all add: new_figure_keeps_colors add_training_keeps_colors add_test_keeps_colors
         add_forecast_keeps_colors update_layout_keeps_colors show_fig_keeps_colors)
qed

text \<open>
  When a call completes: the mode is valid, every frame that is plotted has a first
  column, and a colour dictionary that is given has the key of every trace that is built.
\<close>

lemma plot_time_series_completes:
  assumes "test_data_mode = ''markers'' \<or> test_data_mode = ''lines''"
    and "columns training_data \<noteq> []"
    and "\<forall>td. test_data = Some td \<longrightarrow> columns td \<noteq> []"
    and "\<forall>fd. forecast = Some fd \<longrightarrow> columns fd \<noteq> []"
    and "\<forall>cm. cd = Some cm \<longrightarrow>
           cm ''training'' \<noteq> None \<and> (test_data \<noteq> None \<longrightarrow> cm ''test'' \<noteq> None) \<and>
           (forecast \<noteq> None \<longrightarrow> cm ''forecast'' \<noteq> None)"
  shows "\<exists>s. plot_time_series training_data test_data forecast test_data_mode y_axis_label cd display
             = Normal s"
  using assms
  by (auto simp: plot_defs default_colors_def
      split: if_splits option.splits list.splits sum.splits)

section \<open>Properties\<close>

text \<open>
  C1. A call whose \<open>test_data_mode\<close> is neither \<open>"markers"\<close> nor \<open>"lines"\<close> raises the
  \<open>ValueError\<close> of the validation in the state the call started with: \<open>color_dict\<close> is
  still the argument (not defaulted), \<open>fig\<close> is unbound (no figure, no trace), and the
  display is what it was (nothing shown).
\<close>

theorem invalid_mode_raises_first:
  assumes "test_data_mode \<noteq> ''markers''" and "test_data_mode \<noteq> ''lines''"
  shows "plot_time_series training_data test_data forecast test_data_mode y_axis_label cd display
         = Raised (ValueError ''Invalid value for test_data_mode. Choose 'markers' or 'lines'.'')
             \<lparr>color_dict = cd, fig = None, shown = display\<rparr>"
  using assms by (simp add: plot_time_series_def check_mode_def enter_def)

theorem invalid_mode_raises_first_witness:
  "plot_time_series \<lparr>index = [1::nat, 2], columns = [[10::int, 20]]\<rparr>
     (Some \<lparr>index = [3], columns = [[30]]\<rparr>) None ''dots'' ''Value'' None []
   = Raised (ValueError ''Invalid value for test_data_mode. Choose 'markers' or 'lines'.'')
       \<lparr>color_dict = None, fig = None, shown = []\<rparr>"
  using invalid_mode_raises_first [of "''dots''"] by simp

text \<open>
  C2. With no test data and no forecast, and a valid mode, the figure of a call that
  completes (the value of \<open>fig\<close>, which is also the figure shown last) has exactly one
  trace: the first column of the training frame over its index, in mode \<open>"lines"\<close>,
  named \<open>"Training Data"\<close>, with a line in the \<open>"training"\<close> colour and no marker.
\<close>

theorem only_training_one_trace:
  assumes "test_data_mode = ''markers'' \<or> test_data_mode = ''lines''"
    and "plot_time_series training_data None None test_data_mode y_axis_label cd display
         = Normal s"
  shows "\<exists>f ys c. fig s = Some f \<and> shown s = display @ [f] \<and>
           iloc_col0 training_data = Inr ys \<and>
           getitem (color_dict s) ''training'' = Inr c \<and>
           data f = [\<lparr>scatter_x = index training_data, scatter_y = ys, mode = ''lines'',
                      name = ''Training Data'', marker = None,
                      line = Some \<lparr>line_color = c, dash = None\<rparr>\<rparr>]"
  using assms
  by (auto simp: plot_defs split: if_splits option.splits list.splits sum.splits)

theorem only_training_one_trace_witness:
  "\<exists>s. plot_time_series \<lparr>index = [1::nat, 2], columns = [[10::int, 20]]\<rparr> None None
          ''markers'' ''Value'' None [] = Normal s \<and>
       map name (data (last (shown s))) = [''Training Data''] \<and>
       map mode (data (last (shown s))) = [''lines'']"
proof -
  have "\<exists>s. plot_time_series \<lparr>index = [1::nat, 2], columns = [[10::int, 20]]\<rparr> None None
          ''markers'' ''Value'' None [] = Normal s"
    by (simp add: plot_defs default_colors_def)
  then obtain s where fin:
    "plot_time_series \<lparr>index = [1::nat, 2], columns = [[10::int, 20]]\<rparr> None None
          ''markers'' ''Value'' None [] = Normal s" ..
  have "''markers'' = ''markers'' \<or> ''markers'' = ''lines''" by simp
  from only_training_one_trace [OF this fin] fin show ?thesis
    by auto
qed

text \<open>
  C3. With test data and mode \<open>"markers"\<close>, the second trace of the figure of a call
  that completes is the test trace: mode \<open>"markers"\<close>, a marker dictionary of size 6 in
  the \<open>"test"\<close> colour of the resolved colour mapping (the defaults when no dictionary is
  given, else the dictionary given), and no line dictionary.
\<close>

theorem test_trace_markers:
  assumes "plot_time_series training_data (Some td) forecast ''markers'' y_axis_label cd display
           = Normal s"
  shows "\<exists>f c. fig s = Some f \<and> shown s = display @ [f] \<and> 1 < length (data f) \<and>
      color_dict s = Some (case cd of None \<Rightarrow> default_colors | Some cm \<Rightarrow> cm) \<and>
      (case cd of None \<Rightarrow> default_colors | Some cm \<Rightarrow> cm) ''test'' = Some c \<and>
      name (data f ! 1) = ''Test Data'' \<and> mode (data f ! 1) = ''markers'' \<and>
      marker (data f ! 1) = Some \<lparr>marker_color = c, marker_size = 6\<rparr> \<and>
      line (data f ! 1) = None"
  using assms
  by (auto simp: plot_defs split: if_splits option.splits list.splits sum.splits)

theorem test_trace_markers_witness:
  "\<exists>s. plot_time_series \<lparr>index = [1::nat, 2], columns = [[10::int, 20]]\<rparr>
          (Some \<lparr>index = [3], columns = [[30]]\<rparr>) None ''markers'' ''Value'' None []
        = Normal s \<and>
       marker (data (last (shown s)) ! 1) = Some \<lparr>marker_color = ''#000000'', marker_size = 6\<rparr> \<and>
       line (data (last (shown s)) ! 1) = None"
proof -
  have "\<exists>s. plot_time_series \<lparr>index = [1::nat, 2], columns = [[10::int, 20]]\<rparr>
          (Some \<lparr>index = [3], columns = [[30]]\<rparr>) None ''markers'' ''Value'' None []
        = Normal s"
    by (simp add: plot_defs default_colors_def)
  then obtain s where fin:
    "plot_time_series \<lparr>index = [1::nat, 2], columns = [[10::int, 20]]\<rparr>
          (Some \<lparr>index = [3], columns = [[30]]\<rparr>) None ''markers'' ''Value'' None []
        = Normal s" ..
  from test_trace_markers [OF fin] fin show ?thesis
    by (auto simp: default_colors_def)
qed

text \<open>
  C4. With test data and mode \<open>"lines"\<close>, the second trace of the figure of a call that
  completes is the test trace: mode \<open>"lines"\<close>, a line dictionary in the \<open>"test"\<close>
  colour of the resolved colour mapping (not dashed), and no marker dictionary.
\<close>

theorem test_trace_lines:
  assumes "plot_time_series training_data (Some td) forecast ''lines'' y_axis_label cd display
           = Normal s"
  shows "\<exists>f c. fig s = Some f \<and> shown s = display @ [f] \<and> 1 < length (data f) \<and>
      color_dict s = Some (case cd of None \<Rightarrow> default_colors | Some cm \<Rightarrow> cm) \<and>
      (case cd of None \<Rightarrow> default_colors | Some cm \<Rightarrow> cm) ''test'' = Some c \<and>
      name (data f ! 1) = ''Test Data'' \<and> mode (data f ! 1) = ''lines'' \<and>
      line (data f ! 1) = Some \<lparr>line_color = c, dash = None\<rparr> \<and>
      marker (data f ! 1) = None"
  using assms
  by (auto simp: plot_defs split: if_splits option.splits list.splits sum.splits)

theorem test_trace_lines_witness:
  "\<exists>s. plot_time_series \<lparr>index = [1::nat, 2], columns = [[10::int, 20]]\<rparr>
          (Some \<lparr>index = [3], columns = [[30]]\<rparr>) None ''lines'' ''Value''
          (Some [''training'' \<mapsto> ''navy'', ''test'' \<mapsto> ''green'']) []
        = Normal s \<and>
       line (data (last (shown s)) ! 1) = Some \<lparr>line_color = ''green'', dash = None\<rparr> \<and>
       marker (data (last (shown s)) ! 1) = None"
proof -
  have "\<exists>s. plot_time_series \<lparr>index = [1::nat, 2], columns = [[10::int, 20]]\<rparr>
          (Some \<lparr>index = [3], columns = [[30]]\<rparr>) None ''lines'' ''Value''
          (Some [''training'' \<mapsto> ''navy'', ''test'' \<mapsto> ''green'']) []
        = Normal s"
    by (simp add: plot_defs)
  then obtain s where fin:
    "plot_time_series \<lparr>index = [1::nat, 2], columns = [[10::int, 20]]\<rparr>
          (Some \<lparr>index = [3], columns = [[30]]\<rparr>) None ''lines'' ''Value''
          (Some [''training'' \<mapsto> ''navy'', ''test'' \<mapsto> ''green'']) []
        = Normal s" ..
  from test_trace_lines [OF fin] fin show ?thesis
    by auto
qed

end
